theory Spec2Isabelle
  imports Main
begin

section \<open>Python exceptions\<close>

text \<open>
  The classes of error a run of \<^verbatim>\<open>verify_home.py\<close> can meet. The first four derive from
  Python's \<^verbatim>\<open>Exception\<close>; \<^verbatim>\<open>KeyboardInterrupt\<close> and \<^verbatim>\<open>SystemExit\<close> derive from
  \<^verbatim>\<open>BaseException\<close> only. An exception value carries its class and its message; two
  values are the same error when both agree.
\<close>

datatype exn_class =
  TimeoutError
| AssertionError
| PlaywrightError
| OSError
| KeyboardInterrupt
| SystemExit int

datatype py_exn = Exn (cls: exn_class) (msg: string)

fun is_Exception :: "py_exn \<Rightarrow> bool" where
  "is_Exception (Exn KeyboardInterrupt m) = False"
| "is_Exception (Exn (SystemExit n) m) = False"
| "is_Exception (Exn c m) = True"

section \<open>The browser-automation collaborator\<close>

text \<open>
  A locator is a pure description of how to find an element
  (\<^verbatim>\<open>page.get_by_role(role, name=...)\<close>, \<^verbatim>\<open>page.get_by_text(text)\<close>); building one does
  not touch the page.
\<close>

datatype locator = get_by_role string string | get_by_text string

text \<open>
  The calls the script makes on the collaborator, with the arguments it passes:
  entering and leaving the \<^verbatim>\<open>with sync_playwright()\<close> block,
  \<^verbatim>\<open>chromium.launch(headless)\<close>, \<^verbatim>\<open>new_context()\<close>, \<^verbatim>\<open>new_page()\<close>, \<^verbatim>\<open>goto(url)\<close>,
  \<^verbatim>\<open>wait_for(state="visible", timeout)\<close>, \<^verbatim>\<open>click()\<close>,
  \<^verbatim>\<open>expect(l).to_be_visible(timeout)\<close>, \<^verbatim>\<open>expect(l).not_to_be_visible()\<close>,
  \<^verbatim>\<open>screenshot(path, full_page)\<close> and \<^verbatim>\<open>browser.close()\<close>.
\<close>

datatype call =
  playwright_enter
| launch bool
| new_context
| new_page
| goto string
| wait_for_visible locator nat
| click locator
| to_be_visible locator nat
| not_to_be_visible locator
| screenshot string bool
| close
| playwright_exit

text \<open>What a located element is at the moment it is looked at.\<close>

datatype element = NoElement | HiddenElement | VisibleElement

text \<open>
  The world a run meets: for each call an error that strikes it whatever the page shows
  (a crashed browser, an unreachable server, an interrupt), whether a locator resolves to a
  visible element within so many milliseconds, and what a locator resolves to when the
  absence check looks at it.
\<close>

record world =
  fault :: "call \<Rightarrow> py_exn option"
  becomes_visible :: "locator \<Rightarrow> nat \<Rightarrow> bool"
  at_check :: "locator \<Rightarrow> element"

text \<open>
  Modelled from the spec: the library functions \<^verbatim>\<open>wait_for\<close>, \<^verbatim>\<open>to_be_visible\<close> and
  \<^verbatim>\<open>not_to_be_visible\<close> are not part of the repository. The wait fails with a timeout error
  when the element is not visible within the timeout; the visibility assertion fails when the
  element does not become visible within the timeout; the absence check is satisfied when the
  element does not exist at all or exists but is hidden. Every other call returns normally
  unless a fault strikes it. \<open>None\<close> is a normal return, \<open>Some e\<close> raises \<open>e\<close>.
\<close>

definition respond :: "world \<Rightarrow> call \<Rightarrow> py_exn option" where
  "respond w c =
     (case fault w c of
        Some e \<Rightarrow> Some e
      | None \<Rightarrow>
         (case c of
            wait_for_visible l t \<Rightarrow>
              if becomes_visible w l t then None
              else Some (Exn TimeoutError ''Locator.wait_for: Timeout exceeded'')
          | to_be_visible l t \<Rightarrow>
              if becomes_visible w l t then None
              else Some (Exn AssertionError ''Locator expected to be visible'')
          | not_to_be_visible l \<Rightarrow>
              if at_check w l = VisibleElement
              then Some (Exn AssertionError ''Locator expected not to be visible'')
              else None
          | _ \<Rightarrow> None))"

section \<open>Runs: what was done, and how it ended\<close>

text \<open>
  A run is the list of its observable events in order, a line printed or a collaborator
  call with its outcome, together with the way it ended: \<open>None\<close> when it completed,
  \<open>Some e\<close> when \<open>e\<close> propagated out of it.
\<close>

datatype event = Printed string | Called call "py_exn option"

type_synonym run = "event list \<times> py_exn option"

definition do_call :: "world \<Rightarrow> call \<Rightarrow> run" where
  "do_call w c = ([Called c (respond w c)], respond w c)"

text \<open>\<^verbatim>\<open>print\<close> writes a line of standard output and returns.\<close>

definition py_print :: "string \<Rightarrow> run" where
  "py_print s = ([Printed s], None)"

definition raise :: "py_exn \<Rightarrow> run" where
  "raise e = ([], Some e)"

text \<open>Statements in sequence: the first one that raises ends the block.\<close>

fun block :: "run list \<Rightarrow> run" where
  "block [] = ([], None)"
| "block (s # ss) =
     (case s of
        (evs, Some e) \<Rightarrow> (evs, Some e)
      | (evs, None) \<Rightarrow> (evs @ fst (block ss), snd (block ss)))"

text \<open>\<^verbatim>\<open>try: body  except: handler\<close>: the bare clause catches every error.\<close>

definition try_except :: "run \<Rightarrow> run \<Rightarrow> run" where
  "try_except body handler =
     (case body of
        (evs, None) \<Rightarrow> (evs, None)
      | (evs, Some e) \<Rightarrow> (evs @ fst handler, snd handler))"

text \<open>
  \<^verbatim>\<open>try: body  except Exception as e: handler  finally: cleanup\<close>: the clause catches
  instances of \<^verbatim>\<open>Exception\<close> only; the cleanup runs on every path, and an error it raises
  replaces the pending one.
\<close>

definition try_except_Exception_finally :: "run \<Rightarrow> (py_exn \<Rightarrow> run) \<Rightarrow> run \<Rightarrow> run" where
  "try_except_Exception_finally body handler cleanup =
     (let (evs, r) =
        (case body of
           (evs, None) \<Rightarrow> (evs, None)
         | (evs, Some e) \<Rightarrow>
             if is_Exception e then (evs @ fst (handler e), snd (handler e))
             else (evs, Some e))
      in case cleanup of
           (evs', Some e') \<Rightarrow> (evs @ evs', Some e')
         | (evs', None) \<Rightarrow> (evs @ evs', r))"

text \<open>
  \<^verbatim>\<open>with sync_playwright() as p: body\<close>: when entering fails the body does not run and
  there is nothing to leave; otherwise the exit runs after the body on every path. The
  collaborator's exit returns nothing, so it does not swallow a pending error; an error it
  raises replaces the pending one.
\<close>

definition with_sync_playwright :: "world \<Rightarrow> run \<Rightarrow> run" where
  "with_sync_playwright w body =
     (case do_call w playwright_enter of
        (evs, Some e) \<Rightarrow> (evs, Some e)
      | (evs, None) \<Rightarrow>
         (case do_call w playwright_exit of
            (evs', Some e') \<Rightarrow> (evs @ fst body @ evs', Some e')
          | (evs', None) \<Rightarrow> (evs @ fst body @ evs', snd body)))"

section \<open>The script\<close>

definition start_btn :: locator where
  "start_btn = get_by_role ''button'' ''Start Learning''"

definition heading :: locator where
  "heading = get_by_role ''heading'' ''Welcome to Jubee's World!''"

definition removed_text :: locator where
  "removed_text = get_by_text ''Apple-smooth journey, kid-first''"

text \<open>
  The function of \<^verbatim>\<open>verify_home.py\<close>, statement by statement. The browser, the context
  and the page are acquired inside the \<^verbatim>\<open>with\<close> block and before the outer \<^verbatim>\<open>try\<close>;
  the inner \<^verbatim>\<open>try\<close> with its bare \<^verbatim>\<open>except\<close> holds the wait for the button, a
  \<^verbatim>\<open>print\<close> and the click; the outer \<^verbatim>\<open>try\<close> has the clause
  \<^verbatim>\<open>except Exception as e\<close>, which prints, takes the diagnostic screenshot and runs
  \<^verbatim>\<open>raise e\<close>, and the clause \<^verbatim>\<open>finally: browser.close()\<close>.
\<close>

definition verify_home_text_removed :: "world \<Rightarrow> run" where
  "verify_home_text_removed w =
     with_sync_playwright w
       (block
         [do_call w (launch True),
          do_call w new_context,
          do_call w new_page,
          try_except_Exception_finally
            (block
              [py_print ''Navigating to home page...'',
               do_call w (goto ''http://localhost:3000''),
               try_except
                 (block
                   [do_call w (wait_for_visible start_btn 5000),
                    py_print ''Landing page detected. Clicking 'Start Learning'...'',
                    do_call w (click start_btn)])
                 (py_print
                    ''Landing page not detected (or button missing), assuming Home page...''),
               py_print ''Waiting for Home page content...'',
               do_call w (to_be_visible heading 15000),
               py_print ''Verifying text removal...'',
               do_call w (not_to_be_visible removed_text),
               py_print ''Taking screenshot...'',
               do_call w (screenshot ''verification_home.png'' True),
               py_print ''Verification complete.''])
            (\<lambda>e. block
              [py_print (''Verification failed: '' @ msg e),
               do_call w (screenshot ''verification_error.png'' True),
               raise e])
            (do_call w close)])"



section \<open>Observations on a run\<close>

abbreviation goto_home :: call where
  "goto_home \<equiv> goto ''http://localhost:3000''"

abbreviation button_wait :: call where
  "button_wait \<equiv> wait_for_visible start_btn 5000"

abbreviation heading_check :: call where
  "heading_check \<equiv> to_be_visible heading 15000"

abbreviation text_check :: call where
  "text_check \<equiv> not_to_be_visible removed_text"

abbreviation home_shot :: call where
  "home_shot \<equiv> screenshot ''verification_home.png'' True"

abbreviation error_shot :: call where
  "error_shot \<equiv> screenshot ''verification_error.png'' True"

text \<open>The collaborator calls of the main sequence, outside the optional-button block.\<close>

definition main_sequence :: "call list" where
  "main_sequence = [goto_home, heading_check, text_check, home_shot]"

fun is_call :: "call \<Rightarrow> event \<Rightarrow> bool" where
  "is_call c (Called c' r) = (c = c')"
| "is_call c (Printed s) = False"

text \<open>The call was made in the run, whatever came of it.\<close>

definition attempted :: "call \<Rightarrow> event list \<Rightarrow> bool" where
  "attempted c evs = list_ex (is_call c) evs"

definition times_called :: "call \<Rightarrow> event list \<Rightarrow> nat" where
  "times_called c evs = length (filter (is_call c) evs)"

definition returned :: "call \<Rightarrow> event list \<Rightarrow> bool" where
  "returned c evs = (Called c None \<in> set evs)"

definition raised :: "call \<Rightarrow> py_exn \<Rightarrow> event list \<Rightarrow> bool" where
  "raised c e evs = (Called c (Some e) \<in> set evs)"




text \<open>The line the top-level handler prints: \<^verbatim>\<open>Verification failed: \<close> and the error.\<close>

fun is_failure_line :: "event \<Rightarrow> bool" where
  "is_failure_line (Printed s) = (take 21 s = ''Verification failed: '')"
| "is_failure_line (Called c r) = False"

text \<open>The progress lines the script prints, by name.\<close>

definition not_detected_line :: string where
  "not_detected_line =
     ''Landing page not detected (or button missing), assuming Home page...''"

definition navigating_line :: string where
  "navigating_line = ''Navigating to home page...''"

definition detected_line :: string where
  "detected_line = ''Landing page detected. Clicking 'Start Learning'...''"

definition waiting_line :: string where
  "waiting_line = ''Waiting for Home page content...''"

definition verifying_line :: string where
  "verifying_line = ''Verifying text removal...''"

definition taking_line :: string where
  "taking_line = ''Taking screenshot...''"

definition complete_line :: string where
  "complete_line = ''Verification complete.''"

section \<open>The parts of the script\<close>

text \<open>
  Names for the nested blocks of \<open>verify_home_text_removed\<close>, so that each can be reasoned
  about on its own: the optional-button block, the body of the outer \<^verbatim>\<open>try\<close>, its
  handler, and the whole \<^verbatim>\<open>try\<close> statement.
\<close>

definition landing_page_check :: "world \<Rightarrow> run" where
  "landing_page_check w =
     try_except
       (block
         [do_call w (wait_for_visible start_btn 5000),
          py_print ''Landing page detected. Clicking 'Start Learning'...'',
          do_call w (click start_btn)])
       (py_print
          ''Landing page not detected (or button missing), assuming Home page...'')"

definition try_body :: "world \<Rightarrow> run" where
  "try_body w =
     block
       [py_print ''Navigating to home page...'',
        do_call w (goto ''http://localhost:3000''),
        landing_page_check w,
        py_print ''Waiting for Home page content...'',
        do_call w (to_be_visible heading 15000),
        py_print ''Verifying text removal...'',
        do_call w (not_to_be_visible removed_text),
        py_print ''Taking screenshot...'',
        do_call w (screenshot ''verification_home.png'' True),
        py_print ''Verification complete.'']"

definition failure_handler :: "world \<Rightarrow> py_exn \<Rightarrow> run" where
  "failure_handler w e =
     block
       [py_print (''Verification failed: '' @ msg e),
        do_call w (screenshot ''verification_error.png'' True),
        raise e]"

definition guarded :: "world \<Rightarrow> run" where
  "guarded w =
     try_except_Exception_finally (try_body w) (failure_handler w) (do_call w close)"


section \<open>The events and the outcome of the script\<close>

abbreviation events :: "world \<Rightarrow> event list" where
  "events w \<equiv> fst (verify_home_text_removed w)"

abbreviation outcome :: "world \<Rightarrow> py_exn option" where
  "outcome w \<equiv> snd (verify_home_text_removed w)"

section \<open>Sample worlds\<close>

text \<open>The application already shows the home page: no landing button, the heading is there.\<close>

definition home_world :: world where
  "home_world =
     \<lparr>fault = (\<lambda>c. None),
      becomes_visible = (\<lambda>l t. l = heading),
      at_check = (\<lambda>l. NoElement)\<rparr>"

text \<open>The application starts on the landing page; the button and then the heading show up.\<close>

definition landing_world :: world where
  "landing_world =
     \<lparr>fault = (\<lambda>c. None),
      becomes_visible = (\<lambda>l t. True),
      at_check = (\<lambda>l. NoElement)\<rparr>"

text \<open>Nothing the script looks for ever becomes visible.\<close>

definition blank_world :: world where
  "blank_world =
     \<lparr>fault = (\<lambda>c. None),
      becomes_visible = (\<lambda>l t. False),
      at_check = (\<lambda>l. NoElement)\<rparr>"

text \<open>The home page with the removed text still in the page, hidden or visible.\<close>

definition hidden_text_world :: world where
  "hidden_text_world = home_world\<lparr>at_check := (\<lambda>l. HiddenElement)\<rparr>"

definition visible_text_world :: world where
  "visible_text_world = home_world\<lparr>at_check := (\<lambda>l. VisibleElement)\<rparr>"

text \<open>A world in which one more call is struck by an error.\<close>

definition struck :: "world \<Rightarrow> call \<Rightarrow> py_exn \<Rightarrow> world" where
  "struck w c e = w\<lparr>fault := (fault w)(c := Some e)\<rparr>"

definition detached :: py_exn where
  "detached = Exn PlaywrightError ''Element is not attached to the DOM''"

definition refused :: py_exn where
  "refused = Exn PlaywrightError ''net::ERR_CONNECTION_REFUSED''"

definition target_closed :: py_exn where
  "target_closed = Exn PlaywrightError ''Target page, context or browser has been closed''"

definition disk_full :: py_exn where
  "disk_full = Exn OSError ''No space left on device''"

definition interrupt :: py_exn where
  "interrupt = Exn KeyboardInterrupt []"

definition click_detached_world :: world where
  "click_detached_world = struck landing_world (click start_btn) detached"

definition server_down_world :: world where
  "server_down_world = struck home_world (goto ''http://localhost:3000'') refused"

definition server_down_browser_gone_world :: world where
  "server_down_browser_gone_world =
     struck server_down_world (screenshot ''verification_error.png'' True) target_closed"

definition context_fails_world :: world where
  "context_fails_world = struck home_world new_context target_closed"

definition disk_full_world :: world where
  "disk_full_world = struck home_world (screenshot ''verification_home.png'' True) disk_full"

definition blank_browser_gone_world :: world where
  "blank_browser_gone_world =
     struck blank_world (screenshot ''verification_error.png'' True) target_closed"

definition hidden_text_disk_full_world :: world where
  "hidden_text_disk_full_world =
     struck hidden_text_world (screenshot ''verification_home.png'' True) disk_full"

definition interrupted_world :: world where
  "interrupted_world = struck home_world (to_be_visible heading 15000) interrupt"

section \<open>Events and outcome of each construct\<close>

lemma fst_block_Nil: "fst (block []) = []"
  by simp

lemma snd_block_Nil: "snd (block []) = None"
  by simp

lemma fst_block_Cons:
  "fst (block (s # ss)) = fst s @ (if snd s = None then fst (block ss) else [])"
  by (cases s) (auto split: option.splits)

lemma snd_block_Cons:
  "snd (block (s # ss)) = (case snd s of Some e \<Rightarrow> Some e | None \<Rightarrow> snd (block ss))"
  by (cases s) (auto split: option.splits)

declare block.simps [simp del]

lemma fst_try_except:
  "fst (try_except b h) = fst b @ (if snd b = None then [] else fst h)"
  by (cases b) (auto simp: try_except_def split: option.splits)

lemma snd_try_except:
  "snd (try_except b h) = (if snd b = None then None else snd h)"
  by (cases b) (auto simp: try_except_def split: option.splits)

lemma fst_try_except_Exception_finally:
  "fst (try_except_Exception_finally b h c) =
     fst b @
     (case snd b of
        None \<Rightarrow> []
      | Some e \<Rightarrow> if is_Exception e then fst (h e) else []) @
     fst c"
  by (cases b; cases c) (auto simp: try_except_Exception_finally_def split: option.splits)

lemma snd_try_except_Exception_finally:
  "snd (try_except_Exception_finally b h c) =
     (case snd c of
        Some e' \<Rightarrow> Some e'
      | None \<Rightarrow>
         (case snd b of
            None \<Rightarrow> None
          | Some e \<Rightarrow> if is_Exception e then snd (h e) else Some e))"
  by (cases b; cases c) (auto simp: try_except_Exception_finally_def split: option.splits)

lemma fst_with_sync_playwright:
  "fst (with_sync_playwright w b) =
     Called playwright_enter (respond w playwright_enter) #
     (if respond w playwright_enter = None
      then fst b @ [Called playwright_exit (respond w playwright_exit)]
      else [])"
  by (auto simp: with_sync_playwright_def do_call_def split: option.splits)

lemma snd_with_sync_playwright:
  "snd (with_sync_playwright w b) =
     (case respond w playwright_enter of
        Some e \<Rightarrow> Some e
      | None \<Rightarrow>
         (case respond w playwright_exit of Some e' \<Rightarrow> Some e' | None \<Rightarrow> snd b))"
  by (auto simp: with_sync_playwright_def do_call_def split: option.splits)

lemma fst_do_call: "fst (do_call w c) = [Called c (respond w c)]"
  by (simp add: do_call_def)

lemma snd_do_call: "snd (do_call w c) = respond w c"
  by (simp add: do_call_def)

lemma fst_py_print: "fst (py_print s) = [Printed s]"
  by (simp add: py_print_def)

lemma snd_py_print: "snd (py_print s) = None"
  by (simp add: py_print_def)

lemma fst_raise: "fst (raise e) = []"
  by (simp add: raise_def)

lemma snd_raise: "snd (raise e) = Some e"
  by (simp add: raise_def)

lemmas run_simps =
  fst_block_Nil snd_block_Nil fst_block_Cons snd_block_Cons fst_try_except snd_try_except
  fst_try_except_Exception_finally snd_try_except_Exception_finally
  fst_with_sync_playwright snd_with_sync_playwright
  fst_do_call snd_do_call fst_py_print snd_py_print fst_raise snd_raise

section \<open>The script, part by part\<close>

lemma verify_home_text_removed_parts:
  "verify_home_text_removed w =
     with_sync_playwright w
       (block [do_call w (launch True), do_call w new_context, do_call w new_page, guarded w])"
  unfolding verify_home_text_removed_def guarded_def try_body_def failure_handler_def
    landing_page_check_def ..

lemma snd_landing_page_check: "snd (landing_page_check w) = None"
  unfolding landing_page_check_def by (simp only: run_simps) (simp split: option.split)

lemma fst_landing_page_check:
  "fst (landing_page_check w) =
     Called button_wait (respond w button_wait) #
     (if respond w button_wait = None
      then [Printed detected_line,
            Called (click start_btn) (respond w (click start_btn))] @
           (if respond w (click start_btn) = None then [] else [Printed not_detected_line])
      else [Printed not_detected_line])"
  unfolding landing_page_check_def not_detected_line_def detected_line_def
  by (simp only: run_simps) (simp split: option.split)

lemma snd_try_body:
  "snd (try_body w) =
     (case respond w goto_home of
        Some e \<Rightarrow> Some e
      | None \<Rightarrow>
         (case respond w heading_check of
            Some e \<Rightarrow> Some e
          | None \<Rightarrow>
             (case respond w text_check of
                Some e \<Rightarrow> Some e
              | None \<Rightarrow> respond w home_shot)))"
  unfolding try_body_def
  by (simp only: run_simps snd_landing_page_check) (simp split: option.split)

lemma fst_try_body:
  "fst (try_body w) =
     [Printed navigating_line, Called goto_home (respond w goto_home)] @
     (if respond w goto_home = None then
        fst (landing_page_check w) @
        [Printed waiting_line,
         Called heading_check (respond w heading_check)] @
        (if respond w heading_check = None then
           [Printed verifying_line,
            Called text_check (respond w text_check)] @
           (if respond w text_check = None then
              [Printed taking_line, Called home_shot (respond w home_shot)] @
              (if respond w home_shot = None then [Printed complete_line]
               else [])
            else [])
         else [])
      else [])"
  unfolding try_body_def navigating_line_def waiting_line_def verifying_line_def
    taking_line_def complete_line_def
  by (simp only: run_simps snd_landing_page_check) simp

lemma fst_guarded:
  "fst (guarded w) =
     fst (try_body w) @
     (case snd (try_body w) of
        None \<Rightarrow> []
      | Some e \<Rightarrow>
          if is_Exception e
          then [Printed (''Verification failed: '' @ msg e),
                Called error_shot (respond w error_shot)]
          else []) @
     [Called close (respond w close)]"
  unfolding guarded_def failure_handler_def
  by (simp only: run_simps) (simp split: option.split)

lemma snd_guarded:
  "snd (guarded w) =
     (case respond w close of
        Some e' \<Rightarrow> Some e'
      | None \<Rightarrow>
         (case snd (try_body w) of
            None \<Rightarrow> None
          | Some e \<Rightarrow>
              if is_Exception e
              then (case respond w error_shot of Some e' \<Rightarrow> Some e' | None \<Rightarrow> Some e)
              else Some e))"
  unfolding guarded_def failure_handler_def
  by (simp only: run_simps) (simp split: option.split)


text \<open>The five ways through the body of the outer \<^verbatim>\<open>try\<close>.\<close>

lemma try_body_cases:
  assumes "\<And>e. respond w goto_home = Some e \<Longrightarrow>
             snd (try_body w) = Some e \<Longrightarrow>
             fst (try_body w) =
               [Printed navigating_line, Called goto_home (Some e)] \<Longrightarrow> P"
    and "\<And>e. respond w goto_home = None \<Longrightarrow>
             respond w heading_check = Some e \<Longrightarrow>
             snd (try_body w) = Some e \<Longrightarrow>
             fst (try_body w) =
               [Printed navigating_line, Called goto_home None] @
               fst (landing_page_check w) @
               [Printed waiting_line,
                Called heading_check (Some e)] \<Longrightarrow> P"
    and "\<And>e. respond w goto_home = None \<Longrightarrow>
             respond w heading_check = None \<Longrightarrow>
             respond w text_check = Some e \<Longrightarrow>
             snd (try_body w) = Some e \<Longrightarrow>
             fst (try_body w) =
               [Printed navigating_line, Called goto_home None] @
               fst (landing_page_check w) @
               [Printed waiting_line,
                Called heading_check None,
                Printed verifying_line,
                Called text_check (Some e)] \<Longrightarrow> P"
    and "\<And>e. respond w goto_home = None \<Longrightarrow>
             respond w heading_check = None \<Longrightarrow>
             respond w text_check = None \<Longrightarrow>
             respond w home_shot = Some e \<Longrightarrow>
             snd (try_body w) = Some e \<Longrightarrow>
             fst (try_body w) =
               [Printed navigating_line, Called goto_home None] @
               fst (landing_page_check w) @
               [Printed waiting_line,
                Called heading_check None,
                Printed verifying_line,
                Called text_check None,
                Printed taking_line,
                Called home_shot (Some e)] \<Longrightarrow> P"
    and "respond w goto_home = None \<Longrightarrow>
             respond w heading_check = None \<Longrightarrow>
             respond w text_check = None \<Longrightarrow>
             respond w home_shot = None \<Longrightarrow>
             snd (try_body w) = None \<Longrightarrow>
             fst (try_body w) =
               [Printed navigating_line, Called goto_home None] @
               fst (landing_page_check w) @
               [Printed waiting_line,
                Called heading_check None,
                Printed verifying_line,
                Called text_check None,
                Printed taking_line,
                Called home_shot None,
                Printed complete_line] \<Longrightarrow> P"
  shows P
proof (cases "respond w goto_home")
  case (Some e)
  then show ?thesis using assms(1) by (simp add: fst_try_body snd_try_body)
next
  case nav: None
  show ?thesis
  proof (cases "respond w heading_check")
    case (Some e)
    with nav show ?thesis using assms(2) by (simp add: fst_try_body snd_try_body)
  next
    case hd: None
    show ?thesis
    proof (cases "respond w text_check")
      case (Some e)
      with nav hd show ?thesis using assms(3) by (simp add: fst_try_body snd_try_body)
    next
      case tx: None
      show ?thesis
      proof (cases "respond w home_shot")
        case (Some e)
        with nav hd tx show ?thesis using assms(4) by (simp add: fst_try_body snd_try_body)
      next
        case None
        with nav hd tx show ?thesis using assms(5) by (simp add: fst_try_body snd_try_body)
      qed
    qed
  qed
qed

lemma snd_verify_home_text_removed:
  "snd (verify_home_text_removed w) =
     (case respond w playwright_enter of
        Some e \<Rightarrow> Some e
      | None \<Rightarrow>
         (case respond w playwright_exit of
            Some e' \<Rightarrow> Some e'
          | None \<Rightarrow>
             (case respond w (launch True) of
                Some e \<Rightarrow> Some e
              | None \<Rightarrow>
                 (case respond w new_context of
                    Some e \<Rightarrow> Some e
                  | None \<Rightarrow>
                     (case respond w new_page of
                        Some e \<Rightarrow> Some e
                      | None \<Rightarrow> snd (guarded w))))))"
  unfolding verify_home_text_removed_parts
  by (simp only: run_simps) (simp split: option.split)

lemma fst_verify_home_text_removed:
  "fst (verify_home_text_removed w) =
     Called playwright_enter (respond w playwright_enter) #
     (if respond w playwright_enter = None then
        Called (launch True) (respond w (launch True)) #
        (if respond w (launch True) = None then
           Called new_context (respond w new_context) #
           (if respond w new_context = None then
              Called new_page (respond w new_page) #
              (if respond w new_page = None then fst (guarded w) else [])
            else [])
         else []) @
        [Called playwright_exit (respond w playwright_exit)]
      else [])"
  unfolding verify_home_text_removed_parts by (simp only: run_simps) simp

text \<open>The five ways through the acquisition of browser, context and page.\<close>

lemma acquisition_cases:
  assumes "\<And>e. respond w playwright_enter = Some e \<Longrightarrow>
             snd (verify_home_text_removed w) = Some e \<Longrightarrow>
             fst (verify_home_text_removed w) = [Called playwright_enter (Some e)] \<Longrightarrow> P"
    and "\<And>e. respond w (launch True) = Some e \<Longrightarrow>
             snd (verify_home_text_removed w) =
               (case respond w playwright_exit of Some e' \<Rightarrow> Some e' | None \<Rightarrow> Some e) \<Longrightarrow>
             fst (verify_home_text_removed w) =
               [Called playwright_enter None,
                Called (launch True) (Some e),
                Called playwright_exit (respond w playwright_exit)] \<Longrightarrow> P"
    and "\<And>e. respond w new_context = Some e \<Longrightarrow>
             snd (verify_home_text_removed w) =
               (case respond w playwright_exit of Some e' \<Rightarrow> Some e' | None \<Rightarrow> Some e) \<Longrightarrow>
             fst (verify_home_text_removed w) =
               [Called playwright_enter None,
                Called (launch True) None,
                Called new_context (Some e),
                Called playwright_exit (respond w playwright_exit)] \<Longrightarrow> P"
    and "\<And>e. respond w new_page = Some e \<Longrightarrow>
             snd (verify_home_text_removed w) =
               (case respond w playwright_exit of Some e' \<Rightarrow> Some e' | None \<Rightarrow> Some e) \<Longrightarrow>
             fst (verify_home_text_removed w) =
               [Called playwright_enter None,
                Called (launch True) None,
                Called new_context None,
                Called new_page (Some e),
                Called playwright_exit (respond w playwright_exit)] \<Longrightarrow> P"
    and "snd (verify_home_text_removed w) =
               (case respond w playwright_exit of
                  Some e' \<Rightarrow> Some e'
                | None \<Rightarrow> snd (guarded w)) \<Longrightarrow>
             fst (verify_home_text_removed w) =
               [Called playwright_enter None,
                Called (launch True) None,
                Called new_context None,
                Called new_page None] @
               fst (guarded w) @
               [Called playwright_exit (respond w playwright_exit)] \<Longrightarrow> P"
  shows P
proof -
  note parts = fst_verify_home_text_removed snd_verify_home_text_removed
  show ?thesis
  proof (cases "respond w playwright_enter")
    case (Some e)
    then show ?thesis using assms(1) by (simp add: parts split: option.split)
  next
    case enter: None
    show ?thesis
    proof (cases "respond w (launch True)")
      case (Some e)
      with enter show ?thesis using assms(2) by (simp add: parts split: option.split)
    next
      case browser: None
      show ?thesis
      proof (cases "respond w new_context")
        case (Some e)
        with enter browser show ?thesis using assms(3) by (simp add: parts split: option.split)
      next
        case ctx: None
        show ?thesis
        proof (cases "respond w new_page")
          case (Some e)
          with enter browser ctx show ?thesis using assms(4) by (simp add: parts split: option.split)
        next
          case None
          with enter browser ctx show ?thesis using assms(5) by (simp add: parts split: option.split)
        qed
      qed
    qed
  qed
qed



section \<open>Evaluating a run in a given world\<close>

lemma progress_lines_are_not_failure_lines:
  "is_failure_line (Printed navigating_line) = False"
  "is_failure_line (Printed detected_line) = False"
  "is_failure_line (Printed not_detected_line) = False"
  "is_failure_line (Printed waiting_line) = False"
  "is_failure_line (Printed verifying_line) = False"
  "is_failure_line (Printed taking_line) = False"
  "is_failure_line (Printed complete_line) = False"
  unfolding navigating_line_def detected_line_def not_detected_line_def
    waiting_line_def verifying_line_def taking_line_def complete_line_def
  by simp_all

lemma call_is_not_failure_line: "is_failure_line (Called c r) = False"
  by simp

lemma failure_line_is_failure_line:
  "is_failure_line (Printed (''Verification failed: '' @ m)) = True"
  by simp

declare is_failure_line.simps [simp del]

lemmas failure_line_Cons = failure_line_is_failure_line [simplified]

lemmas obs_defs =
  times_called_def returned_def raised_def attempted_def main_sequence_def
  progress_lines_are_not_failure_lines failure_line_is_failure_line failure_line_Cons
  call_is_not_failure_line

lemmas world_eval =
  respond_def struck_def home_world_def landing_world_def blank_world_def
  hidden_text_world_def visible_text_world_def
  click_detached_world_def server_down_world_def server_down_browser_gone_world_def
  context_fails_world_def disk_full_world_def blank_browser_gone_world_def
  hidden_text_disk_full_world_def interrupted_world_def
  detached_def refused_def target_closed_def disk_full_def interrupt_def
  start_btn_def heading_def removed_text_def

lemmas run_eval =
  fst_verify_home_text_removed snd_verify_home_text_removed
  fst_guarded snd_guarded fst_try_body snd_try_body fst_landing_page_check

text \<open>
  The run on the landing page, in full: the button is found and clicked, both assertions
  pass, the success screenshot is taken, and the browser is closed.
\<close>

lemma landing_world_run:
  "verify_home_text_removed landing_world =
     ([Called playwright_enter None,
       Called (launch True) None,
       Called new_context None,
       Called new_page None,
       Printed navigating_line,
       Called goto_home None,
       Called button_wait None,
       Printed detected_line,
       Called (click start_btn) None,
       Printed waiting_line,
       Called heading_check None,
       Printed verifying_line,
       Called text_check None,
       Printed taking_line,
       Called home_shot None,
       Printed complete_line,
       Called close None,
       Called playwright_exit None],
      None)"
  by (rule prod_eqI) (simp_all add: run_eval world_eval)

text \<open>
  The run when the heading never appears: the wait times out, the assertion fails, the
  handler logs the error and takes the diagnostic screenshot, the browser is closed and the
  assertion error reaches the caller.
\<close>

lemma blank_world_run:
  "verify_home_text_removed blank_world =
     ([Called playwright_enter None,
       Called (launch True) None,
       Called new_context None,
       Called new_page None,
       Printed navigating_line,
       Called goto_home None,
       Called button_wait (Some (Exn TimeoutError ''Locator.wait_for: Timeout exceeded'')),
       Printed not_detected_line,
       Printed waiting_line,
       Called heading_check (Some (Exn AssertionError ''Locator expected to be visible'')),
       Printed ''Verification failed: Locator expected to be visible'',
       Called error_shot None,
       Called close None,
       Called playwright_exit None],
      Some (Exn AssertionError ''Locator expected to be visible''))"
  by (rule prod_eqI) (simp_all add: run_eval world_eval)


section \<open>The optional landing button\<close>








section \<open>Releasing the browser\<close>

text \<open>
  Claim C3, as the claim states it, fails: when acquiring the browsing context raises after
  the browser has been launched, the script never calls \<^verbatim>\<open>browser.close()\<close>; the two
  acquisitions stand before the \<^verbatim>\<open>try\<close> whose \<^verbatim>\<open>finally\<close> closes the browser.
\<close>

theorem context_error_leaves_browser_unclosed:
  "returned (launch True) (events context_fails_world) \<and>
   raised new_context target_closed (events context_fails_world) \<and>
   times_called close (events context_fails_world) = 0 \<and>
   outcome context_fails_world = Some target_closed"
  by (simp add: run_eval world_eval obs_defs)

text \<open>
  Claim C3, amended. In every run that acquired browser, context and page, the script calls
  \<^verbatim>\<open>browser.close()\<close> exactly once, on every exit path: success, assertion failure or
  unexpected error. In a run where the launch or the acquisition of the context or the page
  raises, it does not call \<^verbatim>\<open>browser.close()\<close>; such a run leaves through the exit of
  the \<^verbatim>\<open>sync_playwright\<close> block, which runs exactly once in every run that entered the
  block.
\<close>

theorem browser_closed_once_after_acquisition:
  "times_called close (events w) = (if returned new_page (events w) then 1 else 0) \<and>
   times_called playwright_exit (events w) =
     (if returned playwright_enter (events w) then 1 else 0)"
  by (rule acquisition_cases[of w]; rule try_body_cases[of w])
     (simp_all add: fst_guarded fst_landing_page_check obs_defs)

theorem browser_closed_once_after_acquisition_witness:
  "returned new_page (events disk_full_world) \<and>
   times_called close (events disk_full_world) = 1 \<and>
   returned playwright_enter (events disk_full_world) \<and>
   times_called playwright_exit (events disk_full_world) = 1"
proof -
  have acquired:
    "returned new_page (events disk_full_world) \<and>
     returned playwright_enter (events disk_full_world)"
    by (simp add: run_eval world_eval obs_defs)
  show ?thesis
    using acquired browser_closed_once_after_acquisition [of disk_full_world] by simp
qed

section \<open>The top-level handler\<close>




section \<open>Success and failure of the run\<close>







section \<open>The forbidden text\<close>




section \<open>The two screenshots\<close>



section \<open>Errors that are not instances of Exception\<close>



end
